theory Spec2Isabelle
  imports Main "HOL-Library.Char_ord" "HOL-Library.Sublist" "HOL-Library.Multiset"
begin

section \<open>MetaDepot: listing compilation and incremental depot synchronisation\<close>

text \<open>
  A shallow embedding of \<^verbatim>\<open>lib/listing.ts\<close> (the listing compiler and the sync engine),
  \<^verbatim>\<open>lib/depot.ts\<close> (the local and the WebDAV depot), \<^verbatim>\<open>isSafePath\<close> of
  \<^verbatim>\<open>lib/data.ts\<close> and the NeoForge loop of \<^verbatim>\<open>index.ts\<close>.

  Buffers and strings are byte strings (a JavaScript string is identified with its UTF-8
  encoding, so that \<^verbatim>\<open>buffer.length\<close> is \<open>length\<close>). Asynchronous functions are run to
  completion at the point where they are called: a promise is the value it settles to,
  \<open>Inl\<close> for a rejection. The local file system is a finite map from paths to contents in
  which directories are implicit, so \<^verbatim>\<open>fs.mkdir\<close> changes nothing, \<^verbatim>\<open>fs.writeFile\<close> always
  succeeds and \<^verbatim>\<open>fs.readFile\<close> fails exactly on a path that holds no file.
\<close>

subsection \<open>Values, errors and the host\<close>

type_synonym bytes = string

datatype json =
    JNull
  | JBool bool
  | JNum int
  | JString string
  | JArray "json list"
  | JObject "(string \<times> json) list"

text \<open>Everything the program throws or exits with, and the failures of the host it lets through.\<close>

datatype error =
    ListingAlreadyWritten string \<comment> \<open>\<^verbatim>\<open>Error(`Listing ${name} has already been written.`)\<close>\<close>
  | ProcessExit nat \<comment> \<open>\<^verbatim>\<open>process.exit(code)\<close>\<close>
  | ReferenceError string \<comment> \<open>an identifier with no binding in scope\<close>
  | TypeError string
  | ENOENT string \<comment> \<open>\<^verbatim>\<open>fs.readFile\<close> of a missing path\<close>
  | JSONSyntaxError
  | WebDAVGetFailed string nat \<comment> \<open>\<^verbatim>\<open>WebDAV GET ${fileUrl} failed: ${status}\<close>\<close>
  | WebDAVPutFailed nat \<comment> \<open>\<^verbatim>\<open>WebDAV PUT failed: ${status}\<close>\<close>
  | WebDAVMkcolFailed nat \<comment> \<open>\<^verbatim>\<open>WebDAV MKCOL failed: ${status}\<close>\<close>
  | CannotConnect string \<comment> \<open>\<^verbatim>\<open>Cannot connect to WebDAV server: ${webdavUrl}\<close>\<close>
  | FetchFailed string \<comment> \<open>any other rejection of \<^verbatim>\<open>fetch\<close>, by its cause code\<close>
  | Rejected string \<comment> \<open>a rejection of a promise handed in by a caller\<close>

record FileDescriptor =
  url :: string
  size_f :: nat
  sha256 :: string

record ListingDescriptor = FileDescriptor +
  name :: string
  last_modified :: string
  brotli :: FileDescriptor
  gzip :: FileDescriptor

datatype CompressionType = Gzip | Brotli

text \<open>Of the version details the metadata API returns, the one field the program reads.\<close>

record NeoForgeVersionDetails =
  release_notes :: json

datatype http_verb = GET | PUT | MKCOL

text \<open>
  A request as \<^verbatim>\<open>fetch\<close> receives it. \<open>target\<close> is the relative reference the URL was
  resolved from; it is kept beside the resolved URL so that a request can be traced to
  the path it was issued for.
\<close>

record request =
  verb :: http_verb
  target :: string
  req_url :: string
  authorization :: "string option"
  content_type :: "string option"
  req_body :: "bytes option"

datatype response =
    Response (status: nat) (body: bytes)
  | NetworkError (cause_code: string)

datatype console_line =
    ConsoleInfo string "string list"
  | ConsoleDebug string "string list"
  | ConsoleError string "string list"

text \<open>
  The host: the libraries and the environment the program runs against, none of them code
  of this repository. \<open>JSON_stringify v pretty\<close> is
  \<^verbatim>\<open>Buffer.from(JSON.stringify(v, undefined, pretty ? 2 : undefined), "utf8")\<close>;
  \<open>JSON_parse_index\<close> is \<^verbatim>\<open>JSON.parse\<close> at the type \<^verbatim>\<open>ListingDescriptor[]\<close> that
  \<^verbatim>\<open>getJSON\<close> is called at; \<open>global_name\<close> is the binding of the identifier \<^verbatim>\<open>name\<close> in the
  global scope (\<open>None\<close> where the runtime defines none, as Node.js does); \<open>fetch\<close> runs one
  HTTP exchange against a server in state \<open>'srv\<close>; \<open>resolve_url relative base\<close> is
  \<^verbatim>\<open>new URL(relative, base).toString()\<close>.
\<close>

record 'srv host =
  path_join :: "string \<Rightarrow> string \<Rightarrow> string"
  sha256_hex :: "bytes \<Rightarrow> string"
  brotliCompress :: "bytes \<Rightarrow> bytes"
  gzipCompress :: "bytes \<Rightarrow> bytes"
  JSON_stringify :: "json \<Rightarrow> bool \<Rightarrow> bytes"
  JSON_parse_index :: "bytes \<Rightarrow> error + ListingDescriptor list"
  localeCompare :: "string \<Rightarrow> string \<Rightarrow> int"
  FORMAT_OUTPUT :: "string option"
  global_name :: "string option"
  resolve_url :: "string \<Rightarrow> string \<Rightarrow> string"
  fetch :: "'srv \<Rightarrow> request \<Rightarrow> response \<times> 'srv"
  getNeoForgeDetails :: "string \<Rightarrow> error + NeoForgeVersionDetails"

text \<open>
  The world the program acts on. \<open>upload_calls\<close> and \<open>requests\<close> are histories: every call
  of a depot's \<^verbatim>\<open>upload\<close> and every exchange made through \<^verbatim>\<open>fetch\<close>, oldest first.
\<close>

record 'srv world =
  fs :: "string \<rightharpoonup> bytes"
  console :: "console_line list"
  upload_calls :: "(string \<times> bytes) list"
  requests :: "(request \<times> response) list"
  remote :: 'srv

definition writeFile :: "string \<Rightarrow> bytes \<Rightarrow> 'srv world \<Rightarrow> 'srv world" where
  "writeFile p content w = w\<lparr>fs := (fs w)(p \<mapsto> content)\<rparr>"

definition readFile :: "string \<Rightarrow> 'srv world \<Rightarrow> error + bytes" where
  "readFile p w = (case fs w p of None \<Rightarrow> Inl (ENOENT p) | Some content \<Rightarrow> Inr content)"

definition console_log :: "console_line \<Rightarrow> 'srv world \<Rightarrow> 'srv world" where
  "console_log l w = w\<lparr>console := console w @ [l]\<rparr>"

text \<open>A JavaScript string is truthy when it is not empty.\<close>

definition truthy :: "string option \<Rightarrow> bool" where
  "truthy v = (case v of None \<Rightarrow> False | Some s \<Rightarrow> s \<noteq> [])"

text \<open>\<^verbatim>\<open>Promise.all\<close>: the values in order, or the first rejection.\<close>

fun promise_all :: "(error + 'a) list \<Rightarrow> error + 'a list" where
  "promise_all [] = Inr []"
| "promise_all (Inl e # ps) = Inl e"
| "promise_all (Inr v # ps) = (case promise_all ps of Inl e \<Rightarrow> Inl e | Inr vs \<Rightarrow> Inr (v # vs))"

subsection \<open>Plain objects as dictionaries\<close>

text \<open>
  \<^verbatim>\<open>this.listings\<close> is a plain object used as a dictionary, kept here as an association
  list in insertion order. Two traits of a plain object are part of the model: the
  \<^verbatim>\<open>in\<close> operator also finds the properties inherited from \<^verbatim>\<open>Object.prototype\<close>, and
  \<^verbatim>\<open>Object.values\<close> lists the array-index keys first, in ascending numeric order, then
  the other keys in insertion order.
\<close>

definition objectPrototypeKeys :: "string list" where
  "objectPrototypeKeys =
     [''constructor'', ''__defineGetter__'', ''__defineSetter__'', ''hasOwnProperty'',
      ''__lookupGetter__'', ''__lookupSetter__'', ''isPrototypeOf'',
      ''propertyIsEnumerable'', ''toString'', ''valueOf'', ''__proto__'',
      ''toLocaleString'']"

definition isDigit :: "char \<Rightarrow> bool" where
  "isDigit c \<longleftrightarrow> CHR ''0'' \<le> c \<and> c \<le> CHR ''9''"

definition decimal :: "string \<Rightarrow> nat" where
  "decimal s = foldl (\<lambda>n c. 10 * n + (of_char c - 48)) 0 s"

definition isArrayIndex :: "string \<Rightarrow> bool" where
  "isArrayIndex s \<longleftrightarrow>
     s \<noteq> [] \<and> list_all isDigit s \<and> (length s = 1 \<or> hd s \<noteq> CHR ''0'') \<and>
     decimal s < 2 ^ 32 - 1"

definition objectEntries :: "(string \<times> 'a) list \<Rightarrow> (string \<times> 'a) list" where
  "objectEntries kvs =
     sort_key (\<lambda>kv. decimal (fst kv)) (filter (\<lambda>kv. isArrayIndex (fst kv)) kvs) @
     filter (\<lambda>kv. \<not> isArrayIndex (fst kv)) kvs"

definition objectValues :: "(string \<times> 'a) list \<Rightarrow> 'a list" where
  "objectValues kvs = map snd (objectEntries kvs)"

definition hasProperty :: "string \<Rightarrow> (string \<times> 'a) list \<Rightarrow> bool" where
  "hasProperty k kvs \<longleftrightarrow> k \<in> fst ` set kvs \<or> k \<in> set objectPrototypeKeys"

subsection \<open>The listing compiler (\<^verbatim>\<open>ListingsBuilder\<close>)\<close>

record ListingsBuilder =
  destinationFolder :: string
  listings :: "(string \<times> (error + ListingDescriptor)) list"
  referenceDate :: string

definition newListingsBuilder :: "string \<Rightarrow> string \<Rightarrow> ListingsBuilder" where
  "newListingsBuilder folder now =
     \<lparr>destinationFolder = folder, listings = [], referenceDate = now\<rparr>"

definition compressionExtensions :: "CompressionType \<Rightarrow> string" where
  "compressionExtensions t = (case t of Brotli \<Rightarrow> ''br'' | Gzip \<Rightarrow> ''gz'')"

definition compress :: "'srv host \<Rightarrow> bytes \<Rightarrow> (CompressionType \<times> bytes) list" where
  "compress H buffer = [(Brotli, brotliCompress H buffer), (Gzip, gzipCompress H buffer)]"

definition DEPOT_INDEX_PATH :: string where
  "DEPOT_INDEX_PATH = ''.depot-index.json''"

definition buildUrl :: "string \<Rightarrow> string" where
  "buildUrl filename = filename"

definition buildFileDescriptor :: "'srv host \<Rightarrow> string \<Rightarrow> bytes \<Rightarrow> FileDescriptor" where
  "buildFileDescriptor H filename buffer =
     \<lparr>url = buildUrl filename, size_f = length buffer, sha256 = sha256_hex H buffer\<rparr>"

text \<open>A descriptor as the JavaScript object \<^verbatim>\<open>writeListingAsync\<close> returns, keys in its order.\<close>

definition fileDescriptorFields :: "'a FileDescriptor_scheme \<Rightarrow> (string \<times> json) list" where
  "fileDescriptorFields d =
     [(''url'', JString (url d)), (''size'', JNum (int (size_f d))),
      (''sha256'', JString (sha256 d))]"

definition listingDescriptorJson :: "ListingDescriptor \<Rightarrow> json" where
  "listingDescriptorJson d =
     JObject ([(''name'', JString (name d)), (''last_modified'', JString (last_modified d))] @
       fileDescriptorFields d @
       [(''brotli'', JObject (fileDescriptorFields (brotli d))),
        (''gzip'', JObject (fileDescriptorFields (gzip d)))])"

definition writeCompressed ::
  "string \<Rightarrow> (CompressionType \<times> bytes) list \<Rightarrow> 'srv world \<Rightarrow> 'srv world" where
  "writeCompressed jsonPath compressed w =
     foldl (\<lambda>w' (t, content). writeFile (jsonPath @ ''.'' @ compressionExtensions t) content w')
       w compressed"

definition writeListingAsync ::
  "'srv host \<Rightarrow> ListingsBuilder \<Rightarrow> string \<Rightarrow> error + json \<Rightarrow> 'srv world \<Rightarrow>
     (error + ListingDescriptor) \<times> 'srv world" where
  "writeListingAsync H b nm content w =
     (case content of
        Inl e \<Rightarrow> (Inl e, w)
      | Inr c \<Rightarrow>
          let buffer = JSON_stringify H c (truthy (FORMAT_OUTPUT H));
              jsonPath = path_join H (destinationFolder b) (nm @ ''.json'');
              w1 = writeFile jsonPath buffer w;
              compressed = compress H buffer;
              w2 = writeCompressed jsonPath compressed w1
          in (case (map_of compressed Brotli, map_of compressed Gzip) of
                (Some br, Some gz) \<Rightarrow>
                  (Inr (FileDescriptor.extend (buildFileDescriptor H (nm @ ''.json'') buffer)
                     \<lparr>name = nm, last_modified = referenceDate b,
                      brotli = buildFileDescriptor H (nm @ ''.json.br'') br,
                      gzip = buildFileDescriptor H (nm @ ''.json.gz'') gz\<rparr>), w2)
              | _ \<Rightarrow> (Inl (TypeError ''buffer is undefined''), w2)))"

text \<open>
  \<^verbatim>\<open>writeListing\<close> throws before anything else when the name is a property of the registry;
  otherwise it stores the promise of \<^verbatim>\<open>writeListingAsync\<close> under the name and returns it.
  The outer \<open>Inl\<close> is the synchronous throw, the inner sum the promise.
\<close>

definition writeListing ::
  "'srv host \<Rightarrow> ListingsBuilder \<Rightarrow> string \<Rightarrow> error + json \<Rightarrow> 'srv world \<Rightarrow>
     (error + (error + ListingDescriptor)) \<times> ListingsBuilder \<times> 'srv world" where
  "writeListing H b nm content w =
     (if hasProperty nm (listings b) then (Inl (ListingAlreadyWritten nm), b, w)
      else let (p, w') = writeListingAsync H b nm content w
           in (Inr p, b\<lparr>listings := listings b @ [(nm, p)]\<rparr>, w'))"

definition finish ::
  "'srv host \<Rightarrow> ListingsBuilder \<Rightarrow> 'srv world \<Rightarrow> (error + unit) \<times> 'srv world" where
  "finish H b w =
     (case promise_all (objectValues (listings b)) of
        Inl e \<Rightarrow> (Inl e, w)
      | Inr _ \<Rightarrow>
          (case promise_all (objectValues (listings b)) of
             Inl e \<Rightarrow> (Inl e, w)
           | Inr files \<Rightarrow>
               (case writeListingAsync H b ''index''
                       (Inr (JArray (map listingDescriptorJson files))) w of
                  (Inl e, w') \<Rightarrow> (Inl e, w')
                | (Inr _, w') \<Rightarrow> (Inr (), w'))))"

subsection \<open>Path safety (\<^verbatim>\<open>isSafePath\<close>) and the NeoForge listings of \<^verbatim>\<open>index.ts\<close>\<close>

text \<open>The character class \<^verbatim>\<open>[0-9a-zA-Z_. -]\<close>, whose complement the regular expression searches for.\<close>

definition inSafeClass :: "char \<Rightarrow> bool" where
  "inSafeClass c \<longleftrightarrow>
     (CHR ''0'' \<le> c \<and> c \<le> CHR ''9'') \<or> (CHR ''a'' \<le> c \<and> c \<le> CHR ''z'') \<or>
     (CHR ''A'' \<le> c \<and> c \<le> CHR ''Z'') \<or> c = CHR ''_'' \<or> c = CHR ''.'' \<or> c = CHR '' '' \<or>
     c = CHR ''-''"

text \<open>\<^verbatim>\<open>version.match(/[^0-9a-zA-Z_. -]/)\<close>: the first character outside the class, if any.\<close>

definition matchUnsafe :: "string \<Rightarrow> char option" where
  "matchUnsafe version = List.find (\<lambda>c. \<not> inSafeClass c) version"

definition isSafePath :: "string \<Rightarrow> bool" where
  "isSafePath version \<longleftrightarrow> matchUnsafe version = None"

definition buildNeoForgeListing :: "'srv host \<Rightarrow> string \<Rightarrow> error + json" where
  "buildNeoForgeListing H version =
     (case getNeoForgeDetails H version of
        Inl e \<Rightarrow> Inl e
      | Inr details \<Rightarrow> Inr (JObject [(''release_notes'', release_notes details)]))"

text \<open>
  The loop of \<^verbatim>\<open>index.ts\<close> over the NeoForge versions. The callback of \<^verbatim>\<open>map\<close> returns
  at once for an unsafe version, after \<^verbatim>\<open>console.error\<close>; for a safe one it returns the
  promise of the listing, and \<^verbatim>\<open>Promise.all\<close> rejects (ending the run) with the first
  promise that rejects.
\<close>

fun neoforgeListings ::
  "'srv host \<Rightarrow> string list \<Rightarrow> ListingsBuilder \<Rightarrow> 'srv world \<Rightarrow>
     (error + unit) \<times> ListingsBuilder \<times> 'srv world" where
  "neoforgeListings H [] b w = (Inr (), b, w)"
| "neoforgeListings H (version # rest) b w =
     (if \<not> isSafePath version then
        neoforgeListings H rest b
          (console_log (ConsoleError
             ''Cannot build listing for %s since it's not a safe path name.'' [version]) w)
      else
        (case buildNeoForgeListing H version of
           Inl e \<Rightarrow> (Inl e, b, w)
         | Inr listing \<Rightarrow>
             (case writeListing H b (''neoforge/'' @ version) (Inr listing) w of
                (Inl e, b', w') \<Rightarrow> (Inl e, b', w')
              | (Inr (Inl e), b', w') \<Rightarrow> (Inl e, b', w')
              | (Inr (Inr _), b', w') \<Rightarrow> neoforgeListings H rest b' w')))"

subsection \<open>The depots (\<^verbatim>\<open>DepotManager\<close>)\<close>

record LocalDepotManager =
  local_publicBaseUrl :: string
  basePath :: string


record WebDAVDepotManager =
  publicBaseUrl :: string
  webdavUrl :: string
  authHeader :: "string option"
  createdDirectories :: "string set"

datatype DepotManager = Local LocalDepotManager | WebDAV WebDAVDepotManager



definition local_download ::
  "'srv host \<Rightarrow> LocalDepotManager \<Rightarrow> string \<Rightarrow> 'srv world \<Rightarrow> (error + bytes option) \<times> 'srv world" where
  "local_download H d relativePath w =
     (case readFile (path_join H (basePath d) relativePath) w of
        Inr content \<Rightarrow> (Inr (Some content), w)
      | Inl (ENOENT _) \<Rightarrow> (Inr None, w)
      | Inl e \<Rightarrow> (Inl e, w))"

definition local_upload ::
  "'srv host \<Rightarrow> LocalDepotManager \<Rightarrow> string \<Rightarrow> bytes \<Rightarrow> 'srv world \<Rightarrow> (error + unit) \<times> 'srv world" where
  "local_upload H d relativePath content w =
     (Inr (), writeFile (path_join H (basePath d) relativePath) content w)"

text \<open>One exchange through \<^verbatim>\<open>fetch\<close>, entered in the history.\<close>

definition do_fetch :: "'srv host \<Rightarrow> request \<Rightarrow> 'srv world \<Rightarrow> response \<times> 'srv world" where
  "do_fetch H req w =
     (let (resp, srv) = fetch H (remote w) req
      in (resp, w\<lparr>requests := requests w @ [(req, resp)], remote := srv\<rparr>))"

definition response_ok :: "nat \<Rightarrow> bool" where
  "response_ok st \<longleftrightarrow> 200 \<le> st \<and> st \<le> 299"

definition webdav_download ::
  "'srv host \<Rightarrow> WebDAVDepotManager \<Rightarrow> string \<Rightarrow> 'srv world \<Rightarrow> (error + bytes option) \<times> 'srv world" where
  "webdav_download H d relativePath w =
     (let fileUrl = resolve_url H relativePath (webdavUrl d);
          (resp, w') = do_fetch H \<lparr>verb = GET, target = relativePath, req_url = fileUrl,
                                   authorization = authHeader d, content_type = None,
                                   req_body = None\<rparr> w
      in (case resp of
            NetworkError code \<Rightarrow>
              (if code = ''ENOTFOUND'' \<or> code = ''ECONNREFUSED''
               then (Inl (CannotConnect (webdavUrl d)), w')
               else (Inl (FetchFailed code), w'))
          | Response st content \<Rightarrow>
              (if st = 404 then (Inr None, w')
               else if \<not> response_ok st then (Inl (WebDAVGetFailed fileUrl st), w')
               else (Inr (Some content), w'))))"

text \<open>\<^verbatim>\<open>s.split("/")\<close>: the pieces between the slashes, one more than there are slashes.\<close>

fun split_slash :: "string \<Rightarrow> string list" where
  "split_slash [] = [[]]"
| "split_slash (c # cs) =
     (if c = CHR ''/'' then [] # split_slash cs
      else (case split_slash cs of [] \<Rightarrow> [[c]] | p # ps \<Rightarrow> (c # p) # ps))"

text \<open>\<^verbatim>\<open>relativePath.substring(0, relativePath.lastIndexOf("/"))\<close>; empty when there is no slash.\<close>

definition dirname_of :: "string \<Rightarrow> string" where
  "dirname_of relativePath =
     (if CHR ''/'' \<in> set relativePath
      then rev (tl (dropWhile (\<lambda>c. c \<noteq> CHR ''/'') (rev relativePath)))
      else [])"

text \<open>The loop of \<^verbatim>\<open>ensureDirectoryExists\<close> over the parts, \<open>currentPath\<close> carried along.\<close>

fun ensureParts ::
  "'srv host \<Rightarrow> string list \<Rightarrow> string \<Rightarrow> WebDAVDepotManager \<Rightarrow> 'srv world \<Rightarrow>
     (error + unit) \<times> WebDAVDepotManager \<times> 'srv world" where
  "ensureParts H [] currentPath d w = (Inr (), d, w)"
| "ensureParts H (part # rest) currentPath d w =
     (let cur = currentPath @ part @ ''/''
      in if cur \<in> createdDirectories d then ensureParts H rest cur d w
         else
           (let dirUrl = resolve_url H cur (webdavUrl d);
                (resp, w') = do_fetch H \<lparr>verb = MKCOL, target = cur, req_url = dirUrl,
                                         authorization = authHeader d, content_type = None,
                                         req_body = None\<rparr> w
            in (case resp of
                  NetworkError code \<Rightarrow> (Inl (FetchFailed code), d, w')
                | Response st _ \<Rightarrow>
                    (if st = 201 \<or> st = 405
                     then ensureParts H rest cur
                            (d\<lparr>createdDirectories := insert cur (createdDirectories d)\<rparr>) w'
                     else (Inl (WebDAVMkcolFailed st), d, w')))))"

definition ensureDirectoryExists ::
  "'srv host \<Rightarrow> WebDAVDepotManager \<Rightarrow> string \<Rightarrow> 'srv world \<Rightarrow>
     (error + unit) \<times> WebDAVDepotManager \<times> 'srv world" where
  "ensureDirectoryExists H d dirPath w =
     (if dirPath \<in> createdDirectories d then (Inr (), d, w)
      else ensureParts H (filter (\<lambda>p. p \<noteq> []) (split_slash dirPath)) [] d w)"

definition webdav_upload ::
  "'srv host \<Rightarrow> WebDAVDepotManager \<Rightarrow> string \<Rightarrow> bytes \<Rightarrow> 'srv world \<Rightarrow>
     (error + unit) \<times> WebDAVDepotManager \<times> 'srv world" where
  "webdav_upload H d relativePath content w =
     (let dirname = dirname_of relativePath;
          (r, d1, w1) = (if dirname \<noteq> [] then ensureDirectoryExists H d dirname w
                         else (Inr (), d, w))
      in (case r of
            Inl e \<Rightarrow> (Inl e, d1, w1)
          | Inr _ \<Rightarrow>
              (let fileUrl = resolve_url H relativePath (webdavUrl d1);
                   (resp, w2) = do_fetch H \<lparr>verb = PUT, target = relativePath,
                                            req_url = fileUrl, authorization = authHeader d1,
                                            content_type = Some ''application/octet-stream'',
                                            req_body = Some content\<rparr> w1
               in (case resp of
                     NetworkError code \<Rightarrow> (Inl (FetchFailed code), d1, w2)
                   | Response st _ \<Rightarrow>
                       (if response_ok st then (Inr (), d1, w2)
                        else (Inl (WebDAVPutFailed st), d1, w2))))))"

text \<open>
  The two methods of the abstract class, dispatched on the variant. A call of
  \<^verbatim>\<open>upload\<close> is entered in \<open>upload_calls\<close> before the variant runs.
\<close>

definition download ::
  "'srv host \<Rightarrow> DepotManager \<Rightarrow> string \<Rightarrow> 'srv world \<Rightarrow> (error + bytes option) \<times> 'srv world" where
  "download H depot relativePath w =
     (case depot of
        Local d \<Rightarrow> local_download H d relativePath w
      | WebDAV d \<Rightarrow> webdav_download H d relativePath w)"

definition upload ::
  "'srv host \<Rightarrow> DepotManager \<Rightarrow> string \<Rightarrow> bytes \<Rightarrow> 'srv world \<Rightarrow>
     (error + unit) \<times> DepotManager \<times> 'srv world" where
  "upload H depot relativePath content w =
     (let w0 = w\<lparr>upload_calls := upload_calls w @ [(relativePath, content)]\<rparr>
      in (case depot of
            Local d \<Rightarrow> (let (r, w') = local_upload H d relativePath content w0
                        in (r, Local d, w'))
          | WebDAV d \<Rightarrow> (let (r, d', w') = webdav_upload H d relativePath content w0
                         in (r, WebDAV d', w'))))"

definition getJSON ::
  "'srv host \<Rightarrow> DepotManager \<Rightarrow> string \<Rightarrow> 'srv world \<Rightarrow>
     (error + ListingDescriptor list option) \<times> 'srv world" where
  "getJSON H depot relativePath w =
     (case download H depot relativePath w of
        (Inl e, w') \<Rightarrow> (Inl e, w')
      | (Inr None, w') \<Rightarrow> (Inr None, w')
      | (Inr (Some content), w') \<Rightarrow>
          (case JSON_parse_index H content of
             Inl e \<Rightarrow> (Inl e, w')
           | Inr v \<Rightarrow> (Inr (Some v), w')))"

subsection \<open>The sync engine (\<^verbatim>\<open>ListingsBuilder.syncWithDepot\<close>)\<close>

text \<open>
  \<^verbatim>\<open>Object.fromEntries\<close>: a later entry replaces an earlier one with the same key. A name
  looked up in the resulting object and not found among its own keys yields
  \<^verbatim>\<open>undefined\<close> or a property inherited from \<^verbatim>\<open>Object.prototype\<close>; neither has a
  \<^verbatim>\<open>sha256\<close> equal to a digest, so both are \<open>None\<close> here.
\<close>

definition fromEntries :: "(string \<times> 'a) list \<Rightarrow> string \<rightharpoonup> 'a" where
  "fromEntries kvs = map_of (rev kvs)"

text \<open>The baseline entry that lets a listing be skipped, if there is one.\<close>

definition existingMatch ::
  "(string \<rightharpoonup> ListingDescriptor) \<Rightarrow> ListingDescriptor \<Rightarrow> ListingDescriptor option" where
  "existingMatch existingListings listing =
     (case existingListings (name listing) of
        None \<Rightarrow> None
      | Some existingListing \<Rightarrow>
          (if sha256 existingListing = sha256 listing \<and> size_f existingListing = size_f listing
           then Some existingListing else None))"

definition extensionsToUpload :: "string list" where
  "extensionsToUpload =
     ''json'' # map (\<lambda>e. ''json.'' @ e) (map compressionExtensions [Brotli, Gzip])"

fun uploadExtensions ::
  "'srv host \<Rightarrow> ListingsBuilder \<Rightarrow> string \<Rightarrow> string list \<Rightarrow> DepotManager \<Rightarrow> 'srv world \<Rightarrow>
     (error + unit) \<times> DepotManager \<times> 'srv world" where
  "uploadExtensions H b nm [] depot w = (Inr (), depot, w)"
| "uploadExtensions H b nm (extension # rest) depot w =
     (let filename = nm @ ''.'' @ extension
      in (case readFile (path_join H (destinationFolder b) filename) w of
            Inl e \<Rightarrow> (Inl e, depot, w)
          | Inr content \<Rightarrow>
              (case upload H depot filename content w of
                 (Inl e, depot', w') \<Rightarrow> (Inl e, depot', w')
               | (Inr _, depot', w') \<Rightarrow>
                   uploadExtensions H b nm rest depot'
                     (console_log (ConsoleInfo ''Uploaded %s'' [filename]) w'))))"

text \<open>
  The loop over the listings. In the branch that skips a listing the arguments of
  \<^verbatim>\<open>console.debug\<close> are evaluated first; one of them is the identifier \<^verbatim>\<open>name\<close>, which no
  scope of the module binds, so it is read from the global scope of the host.
\<close>

fun syncListings ::
  "'srv host \<Rightarrow> ListingsBuilder \<Rightarrow> (string \<rightharpoonup> ListingDescriptor) \<Rightarrow> ListingDescriptor list \<Rightarrow>
     DepotManager \<Rightarrow> 'srv world \<Rightarrow> (error + unit) \<times> DepotManager \<times> 'srv world" where
  "syncListings H b existingListings [] depot w = (Inr (), depot, w)"
| "syncListings H b existingListings (listing # rest) depot w =
     (case existingMatch existingListings listing of
        Some existingListing \<Rightarrow>
          (case global_name H of
             None \<Rightarrow> (Inl (ReferenceError ''name''), depot, w)
           | Some n \<Rightarrow>
               syncListings H b existingListings rest depot
                 (console_log (ConsoleDebug
                    ''Skipping upload of listing %s since it's sha256 checksum matches (%s)''
                    [n, sha256 existingListing]) w))
      | None \<Rightarrow>
          (case uploadExtensions H b (name listing) extensionsToUpload depot w of
             (Inl e, depot', w') \<Rightarrow> (Inl e, depot', w')
           | (Inr _, depot', w') \<Rightarrow> syncListings H b existingListings rest depot' w'))"

text \<open>
  \<^verbatim>\<open>Array.prototype.sort\<close> with a comparison function: a stable sort, here by insertion.
  An element moves behind the elements of the sorted rest that it compares above
  (\<^verbatim>\<open>cmp(x, y) > 0\<close>) and stops at the first other one, so elements that compare equal
  keep their order.
\<close>

fun sort_insert :: "('a \<Rightarrow> 'a \<Rightarrow> int) \<Rightarrow> 'a \<Rightarrow> 'a list \<Rightarrow> 'a list" where
  "sort_insert cmp x [] = [x]"
| "sort_insert cmp x (y # ys) =
     (if cmp x y > 0 then y # sort_insert cmp x ys else x # y # ys)"

fun array_sort :: "('a \<Rightarrow> 'a \<Rightarrow> int) \<Rightarrow> 'a list \<Rightarrow> 'a list" where
  "array_sort cmp [] = []"
| "array_sort cmp (x # xs) = sort_insert cmp x (array_sort cmp xs)"

definition newDepotIndex :: "'srv host \<Rightarrow> ListingDescriptor list \<Rightarrow> ListingDescriptor list" where
  "newDepotIndex H ls = array_sort (\<lambda>a b. localeCompare H (name a) (name b)) ls"

definition syncWithDepot ::
  "'srv host \<Rightarrow> ListingsBuilder \<Rightarrow> DepotManager \<Rightarrow> bool \<Rightarrow> 'srv world \<Rightarrow>
     (error + unit) \<times> DepotManager \<times> 'srv world" where
  "syncWithDepot H b depot fullResync w =
     (case getJSON H depot DEPOT_INDEX_PATH w of
        (Inl e, w1) \<Rightarrow> (Inl e, depot, w1)
      | (Inr found, w1) \<Rightarrow>
          (if found = None \<and> \<not> fullResync then
             (Inl (ProcessExit 1), depot,
              console_log (ConsoleInfo
                ''Depot is empty. Full resync required, pass --full-resync'' []) w1)
           else
             (let depotIndex = (case found of None \<Rightarrow> [] | Some idx \<Rightarrow> idx);
                  existingListings = fromEntries (map (\<lambda>e. (name e, e)) depotIndex)
              in (case promise_all (objectValues (listings b)) of
                    Inl e \<Rightarrow> (Inl e, depot, w1)
                  | Inr ls \<Rightarrow>
                      (case syncListings H b existingListings ls depot w1 of
                         (Inl e, depot', w2) \<Rightarrow> (Inl e, depot', w2)
                       | (Inr _, depot', w2) \<Rightarrow>
                           upload H depot' DEPOT_INDEX_PATH
                             (JSON_stringify H
                                (JArray (map listingDescriptorJson (newDepotIndex H ls))) False)
                             w2)))))"

subsection \<open>A host to run the program on\<close>

text \<open>
  A small host for running the definitions on concrete inputs: paths joined with a slash,
  prefixes standing for the digest and the two compressors, a compact printer for JSON
  (a number other than 0 prints as \<^verbatim>\<open>#\<close>), comparison by code unit, no \<^verbatim>\<open>FORMAT_OUTPUT\<close>, no global \<^verbatim>\<open>name\<close>, and a WebDAV server
  whose state is the list of its collections: \<^verbatim>\<open>MKCOL\<close> answers 201 for a new collection
  and 405 for one it has, \<^verbatim>\<open>PUT\<close> answers 201 and \<^verbatim>\<open>GET\<close> answers 404.
\<close>

fun print_json :: "json \<Rightarrow> string" where
  "print_json JNull = ''null''"
| "print_json (JBool v) = (if v then ''true'' else ''false'')"
| "print_json (JNum n) = (if n = 0 then ''0'' else ''#'')"
| "print_json (JString s) = ''\"'' @ s @ ''\"''"
| "print_json (JArray vs) = ''['' @ concat (map (\<lambda>v. print_json v @ '','') vs) @ '']''"
| "print_json (JObject kvs) =
     ''{'' @ concat (map (\<lambda>(k, v). ''\"'' @ k @ ''\":'' @ print_json v @ '','') kvs) @ ''}''"

fun codeUnitCompare :: "string \<Rightarrow> string \<Rightarrow> int" where
  "codeUnitCompare [] [] = 0"
| "codeUnitCompare [] (d # ds) = - 1"
| "codeUnitCompare (c # cs) [] = 1"
| "codeUnitCompare (c # cs) (d # ds) =
     (if c < d then - 1 else if d < c then 1 else codeUnitCompare cs ds)"

definition test_fetch :: "string list \<Rightarrow> request \<Rightarrow> response \<times> string list" where
  "test_fetch collections req =
     (case verb req of
        MKCOL \<Rightarrow> (if target req \<in> set collections then (Response 405 [], collections)
                  else (Response 201 [], target req # collections))
      | PUT \<Rightarrow> (Response 201 [], collections)
      | GET \<Rightarrow> (Response 404 [], collections))"

definition test_host :: "string list host" where
  "test_host =
     \<lparr>path_join = (\<lambda>a b. a @ ''/'' @ b),
      sha256_hex = (\<lambda>buffer. ''sha:'' @ buffer),
      brotliCompress = (\<lambda>buffer. ''br:'' @ buffer),
      gzipCompress = (\<lambda>buffer. ''gz:'' @ buffer),
      JSON_stringify = (\<lambda>v pretty. print_json v),
      JSON_parse_index = (\<lambda>content. if content = ''[]'' then Inr [] else Inl JSONSyntaxError),
      localeCompare = codeUnitCompare,
      FORMAT_OUTPUT = None,
      global_name = None,
      resolve_url = (\<lambda>relative base. base @ relative),
      fetch = test_fetch,
      getNeoForgeDetails = (\<lambda>version. Inr \<lparr>release_notes = JString version\<rparr>)\<rparr>"

definition empty_world :: "string list world" where
  "empty_world =
     \<lparr>fs = Map.empty, console = [], upload_calls = [], requests = [], remote = []\<rparr>"

definition test_builder :: ListingsBuilder where
  "test_builder = newListingsBuilder ''output'' ''2025-01-01T00:00:00.000Z''"

subsection \<open>Definitions used to state the properties\<close>

text \<open>The characters the specification allows in a name, written out.\<close>

definition isAlphanumeric :: "char \<Rightarrow> bool" where
  "isAlphanumeric c \<longleftrightarrow>
     c \<in> set ''0123456789abcdefghijklmnopqrstuvwxyzABCDEFGHIJKLMNOPQRSTUVWXYZ''"

definition allowedBySpec :: "char \<Rightarrow> bool" where
  "allowedBySpec c \<longleftrightarrow>
     isAlphanumeric c \<or> c = CHR ''_'' \<or> c = CHR ''.'' \<or> c = CHR ''-'' \<or> c = CHR '' ''"

definition unsafeVersionWarning :: "string \<Rightarrow> console_line" where
  "unsafeVersionWarning version =
     ConsoleError ''Cannot build listing for %s since it's not a safe path name.'' [version]"

text \<open>The path \<^verbatim>\<open>writeListingAsync\<close> writes the uncompressed listing to.\<close>

definition jsonPathOf :: "'srv host \<Rightarrow> ListingsBuilder \<Rightarrow> string \<Rightarrow> string" where
  "jsonPathOf H b nm = path_join H (destinationFolder b) (nm @ ''.json'')"

text \<open>A descriptor describes the file at a path: the digest and the length are the file's.\<close>

definition describes ::
  "'srv host \<Rightarrow> 'srv world \<Rightarrow> string \<Rightarrow> 'a FileDescriptor_scheme \<Rightarrow> bool" where
  "describes H w p d \<longleftrightarrow>
     (case fs w p of
        None \<Rightarrow> False
      | Some content \<Rightarrow> sha256 d = sha256_hex H content \<and> size_f d = length content)"

text \<open>
  The baseline index holds an entry with the listing's name, digest and size.
\<close>

definition baselineHas :: "ListingDescriptor list \<Rightarrow> ListingDescriptor \<Rightarrow> bool" where
  "baselineHas idx l \<longleftrightarrow>
     list_ex (\<lambda>e. name e = name l \<and> sha256 e = sha256 l \<and> size_f e = size_f l) idx"

text \<open>
  The three artifacts of a listing, in the order \<^verbatim>\<open>syncWithDepot\<close> uploads them.
\<close>

definition artifactNames :: "ListingDescriptor \<Rightarrow> string list" where
  "artifactNames l = [name l @ ''.json'', name l @ ''.json.br'', name l @ ''.json.gz'']"

text \<open>
  The uploads the listings call for against a baseline index: none for a listing the
  baseline holds, the three artifacts for any other.
\<close>

definition expectedUploads ::
  "ListingDescriptor list \<Rightarrow> ListingDescriptor list \<Rightarrow> string list" where
  "expectedUploads idx ls =
     concat (map (\<lambda>l. if baselineHas idx l then [] else artifactNames l) ls)"






text \<open>
  The uploads the listings call for against the object \<^verbatim>\<open>existingListings\<close>.
\<close>

definition uploadsFor ::
  "(string \<rightharpoonup> ListingDescriptor) \<Rightarrow> ListingDescriptor list \<Rightarrow> string list" where
  "uploadsFor ex ls =
     concat (map (\<lambda>l. if existingMatch ex l \<noteq> None then [] else artifactNames l) ls)"









subsection \<open>A run on the test host\<close>

text \<open>
  Two listings registered on the test host, \<^verbatim>\<open>a\<close> with payload \<^verbatim>\<open>null\<close> and \<^verbatim>\<open>b\<close> with
  payload \<^verbatim>\<open>true\<close>; the same after \<^verbatim>\<open>finish\<close>; the descriptors of that run; the
  descriptors of an earlier run in which \<^verbatim>\<open>b\<close> was \<^verbatim>\<open>false\<close>; a host that parses the
  remote index to a given list and binds (or does not bind) the global \<^verbatim>\<open>name\<close>; a local
  depot under \<^verbatim>\<open>depot\<close>; a world in which that depot holds an index; and the two
  listings registered the other way round, \<^verbatim>\<open>b\<close> before \<^verbatim>\<open>a\<close>, with their descriptors.
\<close>

definition test_registered :: "ListingsBuilder \<times> string list world" where
  "test_registered =
     (case writeListing test_host test_builder ''a'' (Inr JNull) empty_world of
        (_, b1, w1) \<Rightarrow>
          (case writeListing test_host b1 ''b'' (Inr (JBool True)) w1 of
             (_, b2, w2) \<Rightarrow> (b2, w2)))"

definition test_run :: "ListingsBuilder \<times> string list world" where
  "test_run =
     (fst test_registered, snd (finish test_host (fst test_registered) (snd test_registered)))"

definition current_index :: "ListingDescriptor list" where
  "current_index =
     (case promise_all (objectValues (listings (fst test_run))) of Inr ds \<Rightarrow> ds | Inl _ \<Rightarrow> [])"

definition previous_index :: "ListingDescriptor list" where
  "previous_index =
     (case promise_all
             [fst (writeListingAsync test_host test_builder ''a'' (Inr JNull) empty_world),
              fst (writeListingAsync test_host test_builder ''b'' (Inr (JBool False))
                     empty_world)] of
        Inr ds \<Rightarrow> ds
      | Inl _ \<Rightarrow> [])"

definition host_with_index :: "string option \<Rightarrow> ListingDescriptor list \<Rightarrow> string list host" where
  "host_with_index gname idx =
     test_host\<lparr>JSON_parse_index := (\<lambda>content. Inr idx), global_name := gname\<rparr>"

definition test_depot :: DepotManager where
  "test_depot = Local \<lparr>local_publicBaseUrl = ''https://depot.example/'', basePath = ''depot''\<rparr>"

definition published :: "string list world \<Rightarrow> string list world" where
  "published w = writeFile ''depot/.depot-index.json'' ''previous'' w"



subsection \<open>Definitions used to state the properties of the WebDAV depot\<close>


















section \<open>Properties\<close>

subsection \<open>Evaluation on the test host\<close>

lemma test_host_simps:
  "path_join test_host = (\<lambda>a b. a @ ''/'' @ b)"
  "sha256_hex test_host = (\<lambda>buffer. ''sha:'' @ buffer)"
  "brotliCompress test_host = (\<lambda>buffer. ''br:'' @ buffer)"
  "gzipCompress test_host = (\<lambda>buffer. ''gz:'' @ buffer)"
  "JSON_stringify test_host = (\<lambda>v pretty. print_json v)"
  "JSON_parse_index test_host =
     (\<lambda>content. if content = ''[]'' then Inr [] else Inl JSONSyntaxError)"
  "localeCompare test_host = codeUnitCompare"
  "FORMAT_OUTPUT test_host = None"
  "global_name test_host = None"
  "resolve_url test_host = (\<lambda>relative base. base @ relative)"
  "fetch test_host = test_fetch"
  "getNeoForgeDetails test_host = (\<lambda>version. Inr \<lparr>release_notes = JString version\<rparr>)"
  by (simp_all add: test_host_def)

lemmas isSafePath_eval = isSafePath_def matchUnsafe_def inSafeClass_def

lemmas run_eval = test_host_simps empty_world_def test_builder_def newListingsBuilder_def
  Let_def writeListing_def writeListingAsync_def hasProperty_def objectPrototypeKeys_def
  buildNeoForgeListing_def compress_def writeCompressed_def writeFile_def
  compressionExtensions_def buildFileDescriptor_def buildUrl_def truthy_def console_log_def
  FileDescriptor.extend_def

subsection \<open>Path safety\<close>

lemma inSafeClass_allowed: "inSafeClass c = allowedBySpec c"
  by (cases c) (simp add: inSafeClass_def allowedBySpec_def isAlphanumeric_def less_eq_char_def)

lemma isSafePath_iff: "isSafePath s \<longleftrightarrow> list_all inSafeClass s"
  by (induction s) (auto simp: isSafePath_def matchUnsafe_def)

text \<open>
  C8. \<^verbatim>\<open>isSafePath\<close> is true exactly when every character of the input is an alphanumeric,
  an underscore, a period, a hyphen or a space; it accepts \<^verbatim>\<open>1.20.1\<close> and
  \<^verbatim>\<open>21.1.72-beta\<close> and rejects \<^verbatim>\<open>../etc/passwd\<close> and \<^verbatim>\<open>a/b\<close>; and a version that fails
  the check costs the loop over the NeoForge versions one line on the console and nothing
  else: the loop goes on with the remaining versions from the same builder and the same
  files.
\<close>

theorem isSafePath_allow_list:
  "(isSafePath s \<longleftrightarrow> list_all allowedBySpec s) \<and>
   isSafePath ''1.20.1'' \<and> isSafePath ''21.1.72-beta'' \<and>
   \<not> isSafePath ''../etc/passwd'' \<and> \<not> isSafePath ''a/b'' \<and>
   (\<not> isSafePath version \<longrightarrow>
      neoforgeListings H (version # rest) b w =
        neoforgeListings H rest b (console_log (unsafeVersionWarning version) w))"
proof -
  have "isSafePath s \<longleftrightarrow> list_all allowedBySpec s"
    by (simp add: isSafePath_iff inSafeClass_allowed[abs_def])
  moreover have "isSafePath ''1.20.1''" "isSafePath ''21.1.72-beta''"
    "\<not> isSafePath ''../etc/passwd''" "\<not> isSafePath ''a/b''"
    by (simp_all add: isSafePath_eval)
  moreover have "\<not> isSafePath version \<longrightarrow>
      neoforgeListings H (version # rest) b w =
        neoforgeListings H rest b (console_log (unsafeVersionWarning version) w)"
    by (simp add: unsafeVersionWarning_def)
  ultimately show ?thesis by blast
qed

theorem isSafePath_allow_list_witness:
  "\<not> isSafePath ''a/b'' \<and>
   (case neoforgeListings test_host [''a/b'', ''1.20.1''] test_builder empty_world of
      (r, b, w) \<Rightarrow>
        r = Inr () \<and> map fst (listings b) = [''neoforge/1.20.1''] \<and>
        console w = [unsafeVersionWarning ''a/b''] \<and>
        fs w ''output/neoforge/1.20.1.json'' = Some ''{\"release_notes\":\"1.20.1\",}'')"
  using isSafePath_allow_list[of "''a/b''" "''a/b''" test_host "[''1.20.1'']" test_builder
      empty_world]
  by (simp add: isSafePath_eval run_eval)

text \<open>
  C10. The check is character-wise and nothing more: the empty string, \<^verbatim>\<open>..\<close> and
  \<^verbatim>\<open>. .\<close> pass it, and the loop over the NeoForge versions builds a listing for an empty
  and for a dot-only version without a line on the console.
\<close>

theorem isSafePath_charwise_only:
  "isSafePath [] \<and> isSafePath ''..'' \<and> isSafePath ''. .'' \<and>
   (case neoforgeListings test_host ['''', ''..''] test_builder empty_world of
      (r, b, w) \<Rightarrow>
        r = Inr () \<and> map fst (listings b) = [''neoforge/'', ''neoforge/..''] \<and>
        console w = [])"
  by (simp add: isSafePath_eval run_eval)

subsection \<open>The listing compiler\<close>

lemmas compile_defs = writeListingAsync_def Let_def compress_def writeCompressed_def
  writeFile_def compressionExtensions_def buildFileDescriptor_def buildUrl_def
  FileDescriptor.extend_def

text \<open>
  C7. \<^verbatim>\<open>writeListing\<close> under a name that is already registered throws before anything is
  written: the builder (the registry with the entry of the first registration) and the
  world (the files the first registration wrote) are returned as they were.
\<close>

theorem writeListing_duplicate_fails:
  "nm \<in> fst ` set (listings b) \<Longrightarrow>
     writeListing H b nm content w = (Inl (ListingAlreadyWritten nm), b, w)"
  by (simp add: writeListing_def hasProperty_def)

theorem writeListing_duplicate_fails_witness:
  "(case writeListing test_host test_builder ''a'' (Inr JNull) empty_world of
      (r1, b1, w1) \<Rightarrow>
        ''a'' \<in> fst ` set (listings b1) \<and> fs w1 ''output/a.json'' = Some ''null'' \<and>
        writeListing test_host b1 ''a'' (Inr (JBool True)) w1 =
          (Inl (ListingAlreadyWritten ''a''), b1, w1))"
proof -
  obtain r1 b1 w1 where
    run: "writeListing test_host test_builder ''a'' (Inr JNull) empty_world = (r1, b1, w1)"
    by (metis prod_cases3)
  have reg: "''a'' \<in> fst ` set (listings b1)"
    and out: "fs w1 ''output/a.json'' = Some ''null''"
    using run by (auto simp add: run_eval)
  from writeListing_duplicate_fails[OF reg]
  show ?thesis using run reg out by simp
qed


text \<open>
  C5. \<^verbatim>\<open>writeListingAsync\<close> on a payload returns a descriptor, and each of its three file
  descriptors carries the digest and the length of the bytes that the call has left at
  the artifact's path: the uncompressed one at the JSON path (where the serialised payload
  is), the brotli and the gzip one at that path with \<^verbatim>\<open>.br\<close> and \<^verbatim>\<open>.gz\<close> appended, as
  their URLs are the listing's URL with the same extension appended.
\<close>

theorem descriptors_content_addressed:
  "\<exists>d w'. writeListingAsync H b nm (Inr c) w = (Inr d, w') \<and>
     describes H w' (jsonPathOf H b nm) d \<and>
     describes H w' (jsonPathOf H b nm @ ''.br'') (brotli d) \<and>
     describes H w' (jsonPathOf H b nm @ ''.gz'') (gzip d) \<and>
     fs w' (jsonPathOf H b nm) = Some (JSON_stringify H c (truthy (FORMAT_OUTPUT H))) \<and>
     url d = nm @ ''.json'' \<and> url (brotli d) = url d @ ''.br'' \<and>
     url (gzip d) = url d @ ''.gz''"
  by (simp add: compile_defs describes_def jsonPathOf_def)

text \<open>
  C6. Let the two compressors of the host be lossless (each has a decompressor that undoes
  it) and let the payload \<open>P\<close> survive serialisation (parsing its serialised bytes gives
  \<open>P\<close> back). Then registering \<open>P\<close> under a fresh name \<open>N\<close> leaves three files such that
  decompressing the \<^verbatim>\<open>.br\<close> file and decompressing the \<^verbatim>\<open>.gz\<close> file both give the bytes
  of \<^verbatim>\<open>N.json\<close>, and those bytes parse to \<open>P\<close>.
\<close>

theorem compression_round_trip:
  assumes "\<not> hasProperty N (listings b)"
    and "\<forall>x. brotliDecompress (brotliCompress H x) = x"
    and "\<forall>x. gunzip (gzipCompress H x) = x"
    and "parse (JSON_stringify H P (truthy (FORMAT_OUTPUT H))) = Inr P"
  shows "\<exists>d b' w' plain. writeListing H b N (Inr P) w = (Inr (Inr d), b', w') \<and>
           fs w' (jsonPathOf H b N) = Some plain \<and>
           map_option brotliDecompress (fs w' (jsonPathOf H b N @ ''.br'')) = Some plain \<and>
           map_option gunzip (fs w' (jsonPathOf H b N @ ''.gz'')) = Some plain \<and>
           parse plain = Inr P"
  using assms by (simp add: writeListing_def compile_defs jsonPathOf_def)

theorem compression_round_trip_witness:
  "\<exists>d b' w'.
     writeListing test_host test_builder ''a'' (Inr (JString ''x'')) empty_world =
       (Inr (Inr d), b', w') \<and>
     fs w' ''output/a.json'' = Some ''\"x\"'' \<and>
     map_option (drop 3) (fs w' ''output/a.json.br'') = Some ''\"x\"'' \<and>
     map_option (drop 3) (fs w' ''output/a.json.gz'') = Some ''\"x\"''"
  using compression_round_trip[of "''a''" test_builder "drop 3" test_host "drop 3"
      "\<lambda>s. if s = ''\"x\"'' then Inr (JString ''x'') else Inl JSONSyntaxError"
      "JString ''x''" empty_world]
  by (simp add: run_eval jsonPathOf_def)

subsection \<open>The sync engine: what a run uploads\<close>

lemma existingMatch_baselineHas:
  assumes "distinct (map name idx)"
  shows "existingMatch (fromEntries (map (\<lambda>e. (name e, e)) idx)) l \<noteq> None \<longleftrightarrow> baselineHas idx l"
proof -
  let ?kvs = "map (\<lambda>e. (name e, e)) idx"
  have d: "distinct (map fst (rev ?kvs))"
    using assms by (simp add: rev_map[symmetric] comp_def)
  have look: "map_of (rev ?kvs) k = Some e \<longleftrightarrow> e \<in> set idx \<and> name e = k" for k e
    using map_of_eq_Some_iff[OF d, of k e] by auto
  show ?thesis
  proof (cases "map_of (rev ?kvs) (name l)")
    case None
    have none: "e \<notin> set idx \<or> name e \<noteq> name l" for e
      using look[of "name l" e] None by auto
    have "\<not> baselineHas idx l"
      unfolding baselineHas_def list_ex_iff using none by blast
    moreover have "existingMatch (fromEntries ?kvs) l = None"
      using None by (simp add: existingMatch_def fromEntries_def)
    ultimately show ?thesis by simp
  next
    case (Some e)
    then have e: "e \<in> set idx" "name e = name l"
      using look[of "name l" e] by auto
    have only: "e' = e" if "e' \<in> set idx" "name e' = name l" for e'
      using look[of "name l" e'] that Some by simp
    have lhs: "existingMatch (fromEntries ?kvs) l \<noteq> None \<longleftrightarrow>
        sha256 e = sha256 l \<and> size_f e = size_f l"
      using Some by (simp add: existingMatch_def fromEntries_def)
    have rhs: "baselineHas idx l \<longleftrightarrow> sha256 e = sha256 l \<and> size_f e = size_f l"
    proof
      assume "baselineHas idx l"
      then obtain x where x: "x \<in> set idx" "name x = name l"
        "sha256 x = sha256 l" "size_f x = size_f l"
        unfolding baselineHas_def list_ex_iff by blast
      from only[OF x(1,2)] x(3,4) show "sha256 e = sha256 l \<and> size_f e = size_f l"
        by simp
    next
      assume "sha256 e = sha256 l \<and> size_f e = size_f l"
      with e show "baselineHas idx l"
        unfolding baselineHas_def list_ex_iff by blast
    qed
    from lhs rhs show ?thesis by simp
  qed
qed
























lemma uploadsFor_baseline:
  assumes "distinct (map name idx)"
  shows "uploadsFor (fromEntries (map (\<lambda>e. (name e, e)) idx)) ls = expectedUploads idx ls"
proof -
  have "(existingMatch (fromEntries (map (\<lambda>e. (name e, e)) idx)) l \<noteq> None) =
          baselineHas idx l" for l
    by (rule existingMatch_baselineHas[OF assms])
  then show ?thesis
    unfolding uploadsFor_def expectedUploads_def by (simp only:)
qed


subsection \<open>Evaluation of the run on the test host\<close>

lemmas sync_eval = run_eval syncWithDepot_def getJSON_def download_def local_download_def
  readFile_def upload_def local_upload_def objectValues_def objectEntries_def
  isArrayIndex_def isDigit_def existingMatch_def fromEntries_def extensionsToUpload_def
  DEPOT_INDEX_PATH_def finish_def test_depot_def published_def host_with_index_def


lemma test_run_world:
  "upload_calls (snd test_run) = []"
  "console (snd test_run) = []"
  "fs (snd test_run) ''output/index.json.br'' \<noteq> None"
  "fs (snd test_run) ''depot/.depot-index.json'' = None"
  by (simp_all add: test_run_def test_registered_def sync_eval)

subsection \<open>The index is sorted\<close>












subsection \<open>A run that nothing refuses succeeds\<close>














subsection \<open>The sync engine: the claims\<close>

text \<open>
  C1 against the code. The remote index holds the descriptors of an earlier run in which
  listing \<^verbatim>\<open>a\<close> was what it is now and listing \<^verbatim>\<open>b\<close> was not, so that the three
  artifacts of \<^verbatim>\<open>b\<close> are to be uploaded. On a host with no global \<^verbatim>\<open>name\<close> the listing
  \<^verbatim>\<open>a\<close>, which comes first and is skipped, throws a \<^verbatim>\<open>ReferenceError\<close> while the
  arguments of \<^verbatim>\<open>console.debug\<close> are evaluated: \<^verbatim>\<open>syncWithDepot\<close> fails before it
  reaches \<^verbatim>\<open>b\<close>, no upload is called and the depot holds none of the artifacts of
  \<^verbatim>\<open>b\<close>. On a host that binds \<^verbatim>\<open>name\<close> the same run uploads the three artifacts of
  \<^verbatim>\<open>b\<close> and then the index. The unbound \<^verbatim>\<open>name\<close> of the skip branch is the defect
  that C4 meets when no listing has changed.
\<close>

theorem changed_listing_after_unchanged_not_uploaded:
  "expectedUploads previous_index current_index = [''b.json'', ''b.json.br'', ''b.json.gz''] \<and>
   (case syncWithDepot (host_with_index None previous_index) (fst test_run) test_depot False
           (published (snd test_run)) of
      (r, d, w) \<Rightarrow>
        r = Inl (ReferenceError ''name'') \<and> upload_calls w = [] \<and>
        fs w ''depot/b.json'' = None \<and> fs w ''depot/b.json.br'' = None \<and>
        fs w ''depot/b.json.gz'' = None) \<and>
   (case syncWithDepot (host_with_index (Some []) previous_index) (fst test_run) test_depot
           False (published (snd test_run)) of
      (r, d, w) \<Rightarrow>
        r = Inr () \<and>
        map fst (upload_calls w) =
          [''b.json'', ''b.json.br'', ''b.json.gz'', ''.depot-index.json''])"
proof -
  have "expectedUploads previous_index current_index = [''b.json'', ''b.json.br'', ''b.json.gz'']"
    by (simp add: expectedUploads_def baselineHas_def artifactNames_def previous_index_def
        current_index_def test_run_def test_registered_def sync_eval)
  moreover have "(case syncWithDepot (host_with_index None previous_index) (fst test_run)
        test_depot False (published (snd test_run)) of
      (r, d, w) \<Rightarrow>
        r = Inl (ReferenceError ''name'') \<and> upload_calls w = [] \<and>
        fs w ''depot/b.json'' = None \<and> fs w ''depot/b.json.br'' = None \<and>
        fs w ''depot/b.json.gz'' = None)"
    by (simp add: test_run_def test_registered_def previous_index_def sync_eval)
  moreover have "(case syncWithDepot (host_with_index (Some []) previous_index) (fst test_run)
        test_depot False (published (snd test_run)) of
      (r, d, w) \<Rightarrow>
        r = Inr () \<and>
        map fst (upload_calls w) =
          [''b.json'', ''b.json.br'', ''b.json.gz'', ''.depot-index.json''])"
    by (simp add: test_run_def test_registered_def previous_index_def sync_eval)
  ultimately show ?thesis by simp
qed






text \<open>
  C4 against the code. No listing has changed: the remote index holds exactly the
  descriptors of this run. On a host with no global \<^verbatim>\<open>name\<close> the first listing that is
  skipped throws a \<^verbatim>\<open>ReferenceError\<close> while the arguments of \<^verbatim>\<open>console.debug\<close> are
  evaluated: \<^verbatim>\<open>syncWithDepot\<close> fails, no upload is called and the depot keeps its
  previous index. On a host that binds \<^verbatim>\<open>name\<close> the same run uploads the index and
  nothing else.
\<close>

theorem unchanged_listing_aborts_sync:
  "(case syncWithDepot (host_with_index None current_index) (fst test_run) test_depot False
           (published (snd test_run)) of
      (r, d, w) \<Rightarrow>
        r = Inl (ReferenceError ''name'') \<and> upload_calls w = [] \<and>
        fs w ''depot/.depot-index.json'' = Some ''previous'') \<and>
   (case syncWithDepot (host_with_index (Some []) current_index) (fst test_run) test_depot False
           (published (snd test_run)) of
      (r, d, w) \<Rightarrow>
        r = Inr () \<and> map fst (upload_calls w) = [''.depot-index.json''])"
  by (simp add: test_run_def test_registered_def current_index_def sync_eval)

subsection \<open>The WebDAV depot: directories are created once\<close>































end
